theory Spec2Isabelle
  imports Complex_Main "HOL-Library.Sublist"
begin

section \<open>The Python job adapter of Calamares (python/PythonJob.cpp)\<close>

text \<open>
  \<^verbatim>\<open>Job::exec\<close> runs one guest script in a fresh embedded interpreter and turns every
  outcome into a \<^verbatim>\<open>JobResult\<close>. The adapter is glue between three parties: Qt (strings,
  the file system, translations), pybind11 (the interpreter, objects, the two C++
  exception classes it throws) and the guest script. The model keeps the adapter's own
  control flow as it is written and takes the three parties as data:
  \<^item> what Qt answers about paths and translations is a record of functions;
  \<^item> what the guest code does when it runs (the pre-script, the script file, a call
    of a function object) is a function from the globals it finds to the globals it
    leaves, the values it passes to \<^verbatim>\<open>Job::emitProgress\<close> on the way, and whether it
    returned or raised. Guest code that never returns is outside the model: the
    adapter has no timeout, and nothing below is claimed about it;
  \<^item> a C++ exception is a value: the result of a fallible step is a sum,
    \<open>Inl\<close> the exception.
  Logging (\<^verbatim>\<open>cError()\<close>, \<^verbatim>\<open>cDebug()\<close>) changes no result and is left out.
\<close>

subsection \<open>Qt strings\<close>

text \<open>
  A \<^verbatim>\<open>QString\<close> is modelled as a \<open>string\<close>, one \<open>char\<close> per code unit, so the
  model covers text in the range of code points below 256.
  \<^verbatim>\<open>QChar::isSpace\<close> is true there for tab, line feed, vertical tab, form feed, carriage
  return, space, U+0085 and U+00A0.
\<close>

definition isSpace :: "char \<Rightarrow> bool" where
  "isSpace c = (let n = (of_char c :: nat) in (9 \<le> n \<and> n \<le> 13) \<or> n = 32 \<or> n = 133 \<or> n = 160)"

definition trimmed :: "string \<Rightarrow> string" where
  "trimmed s = rev (dropWhile isSpace (rev (dropWhile isSpace s)))"

text \<open>\<^verbatim>\<open>QString::indexOf(ch)\<close>: the position of the first occurrence, \<open>-1\<close> when there is none.\<close>

fun indexOf :: "string \<Rightarrow> char \<Rightarrow> int" where
  "indexOf [] ch = - 1"
| "indexOf (x # xs) ch =
     (if x = ch then 0 else (let i = indexOf xs ch in if i < 0 then - 1 else i + 1))"

text \<open>\<^verbatim>\<open>QString::truncate(pos)\<close>: keeps the first \<open>pos\<close> code units; a negative \<open>pos\<close> counts as 0.\<close>

definition truncate_QString :: "string \<Rightarrow> int \<Rightarrow> string" where
  "truncate_QString s pos = take (nat pos) s"

text \<open>
  \<^verbatim>\<open>QString::fromUtf8( s.c_str() )\<close>: the argument is a C string, so the conversion
  stops at the first NUL of the \<^verbatim>\<open>std::string\<close>.
\<close>

definition fromUtf8_c_str :: "string \<Rightarrow> string" where
  "fromUtf8_c_str s = takeWhile (\<lambda>c. c \<noteq> CHR 0x00) s"

text \<open>
  \<^verbatim>\<open>QString::arg(a)\<close> replaces every occurrence of the lowest-numbered place marker by
  \<open>a\<close>, and returns the string as it is when it has no place marker. A place marker is
  a percent sign, an optional \<^verbatim>\<open>L\<close> and one or two decimal digits (\<^verbatim>\<open>%1\<close>, \<^verbatim>\<open>%L2\<close>,
  \<^verbatim>\<open>%12\<close>). Qt scans the string from left to right; the scan is the automaton below,
  whose state says how much of a marker has been read.
\<close>

datatype arg_scan = Text | Percent | PercentL | Digit bool char

definition is_digit :: "char \<Rightarrow> bool" where
  "is_digit c = (let n = (of_char c :: nat) in 48 \<le> n \<and> n \<le> 57)"

definition digitValue :: "char \<Rightarrow> nat" where
  "digitValue c = of_char c - 48"

definition enter :: "char \<Rightarrow> arg_scan" where
  "enter c = (if c = CHR ''%'' then Percent else Text)"

definition plain :: "char \<Rightarrow> string" where
  "plain c = (if c = CHR ''%'' then [] else [c])"

fun pending :: "arg_scan \<Rightarrow> string" where
  "pending Text = []"
| "pending Percent = ''%''"
| "pending PercentL = ''%L''"
| "pending (Digit l d) = (if l then ''%L'' else ''%'') @ [d]"

text \<open>\<^verbatim>\<open>findArgEscapes\<close>: the numbers of the place markers, in the order of the text.\<close>

fun escapes :: "arg_scan \<Rightarrow> string \<Rightarrow> nat list" where
  "escapes st [] = (case st of Digit l d \<Rightarrow> [digitValue d] | _ \<Rightarrow> [])"
| "escapes st (c # cs) =
     (case st of
        Text \<Rightarrow> escapes (enter c) cs
      | Percent \<Rightarrow>
          if c = CHR ''L'' then escapes PercentL cs
          else if is_digit c then escapes (Digit False c) cs
          else escapes (enter c) cs
      | PercentL \<Rightarrow>
          if is_digit c then escapes (Digit True c) cs else escapes (enter c) cs
      | Digit l d \<Rightarrow>
          if is_digit c then (10 * digitValue d + digitValue c) # escapes Text cs
          else digitValue d # escapes (enter c) cs)"

text \<open>\<^verbatim>\<open>replaceArgEscapes\<close>: the text with each marker numbered \<open>m\<close> replaced by \<open>a\<close>.\<close>

fun replaceArgEscapes :: "nat \<Rightarrow> string \<Rightarrow> arg_scan \<Rightarrow> string \<Rightarrow> string" where
  "replaceArgEscapes m a st [] =
     (case st of Digit l d \<Rightarrow> (if digitValue d = m then a else pending st) | _ \<Rightarrow> pending st)"
| "replaceArgEscapes m a st (c # cs) =
     (case st of
        Text \<Rightarrow> plain c @ replaceArgEscapes m a (enter c) cs
      | Percent \<Rightarrow>
          if c = CHR ''L'' then replaceArgEscapes m a PercentL cs
          else if is_digit c then replaceArgEscapes m a (Digit False c) cs
          else pending st @ plain c @ replaceArgEscapes m a (enter c) cs
      | PercentL \<Rightarrow>
          if is_digit c then replaceArgEscapes m a (Digit True c) cs
          else pending st @ plain c @ replaceArgEscapes m a (enter c) cs
      | Digit l d \<Rightarrow>
          if is_digit c
          then (if 10 * digitValue d + digitValue c = m then a else pending st @ [c])
               @ replaceArgEscapes m a Text cs
          else (if digitValue d = m then a else pending st)
               @ plain c @ replaceArgEscapes m a (enter c) cs)"

definition arg :: "string \<Rightarrow> string \<Rightarrow> string" where
  "arg s a =
     (case escapes Text s of
        [] \<Rightarrow> s
      | m # ms \<Rightarrow> replaceArgEscapes (fold min ms m) a Text s)"

subsection \<open>Job results\<close>

text \<open>
  Modelled from the spec: \<^verbatim>\<open>JobResult\<close> is declared in Job.h, which is not among the
  sources. The spec's job result is a tagged outcome: success, an error with a summary
  and details, or an internal error with a summary, details and a cause code. The
  source makes them with \<^verbatim>\<open>JobResult::ok()\<close>, \<^verbatim>\<open>JobResult::error( message, details )\<close> and
  \<^verbatim>\<open>JobResult::internalError( message, details, errorCode )\<close>. The only cause code this
  file passes is \<^verbatim>\<open>JobResult::PythonUncaughtException\<close>, an uncaught exception of the
  guest; the others of the enumeration are \<open>OtherErrorCode\<close>.
\<close>

datatype error_code = PythonUncaughtException | OtherErrorCode nat

datatype JobResult =
    Success
  | Error string string
  | InternalError string string error_code

subsection \<open>Python objects and the exceptions of pybind11\<close>

text \<open>
  pybind11 throws \<^verbatim>\<open>py::error_already_set\<close> when the interpreter has raised, and
  \<^verbatim>\<open>py::cast_error\<close> when a conversion to a C++ type fails. Neither class derives from
  the other: a handler for one does not catch the other.
\<close>

datatype cpp_exception = cast_error | error_already_set

text \<open>
  The objects of the guest that the model knows: \<^verbatim>\<open>None\<close>, integers, text, tuples, lists and
  function objects. A function object is named by a number; what a call of it does is
  given by the world.
\<close>

datatype pyobj =
    PyNone
  | PyInt int
  | PyStr string
  | PyTuple "pyobj list"
  | PyList "pyobj list"
  | PyFunction nat

type_synonym scope = "string \<rightharpoonup> pyobj"

text \<open>
  What a piece of code did when it ran: the values it passed to
  \<^verbatim>\<open>Job::emitProgress\<close> (through \<^verbatim>\<open>libcalamares.job.setprogress\<close>), its result and
  the globals of \<^verbatim>\<open>__main__\<close> it left. The result of guest code is an option, \<open>None\<close>
  when it raised: pybind11 then throws \<^verbatim>\<open>py::error_already_set\<close>. A progress value is a
  \<^verbatim>\<open>double\<close> in the source and a real number here; \<^verbatim>\<open>exec\<close> itself only emits 0.
\<close>

record 'r ran =
  emitted :: "real list"
  result :: 'r
  globals :: scope

text \<open>\<^verbatim>\<open>obj.cast< std::string >()\<close>: only text converts.\<close>

fun cast_std_string :: "pyobj \<Rightarrow> cpp_exception + string" where
  "cast_std_string (PyStr s) = Inr s"
| "cast_std_string _ = Inl cast_error"

text \<open>
  \<^verbatim>\<open>const py::tuple items = r\<close>: a tuple is taken as it is, any other object goes through
  \<^verbatim>\<open>PySequence_Tuple\<close>, which accepts every iterable (a list gives its elements, a text
  its characters) and raises \<^verbatim>\<open>TypeError\<close> otherwise.
\<close>

fun to_tuple :: "pyobj \<Rightarrow> cpp_exception + pyobj list" where
  "to_tuple (PyTuple xs) = Inr xs"
| "to_tuple (PyList xs) = Inr xs"
| "to_tuple (PyStr s) = Inr (map (\<lambda>c. PyStr [c]) s)"
| "to_tuple _ = Inl error_already_set"

text \<open>\<^verbatim>\<open>items[ i ]\<close>: \<^verbatim>\<open>PyTuple_GetItem\<close> raises \<^verbatim>\<open>IndexError\<close> out of range.\<close>

definition tuple_item :: "pyobj list \<Rightarrow> nat \<Rightarrow> cpp_exception + pyobj" where
  "tuple_item items i = (if i < length items then Inr (items ! i) else Inl error_already_set)"

subsection \<open>The world around one job\<close>

text \<open>
  The installation of the host API (the body of the first \<^verbatim>\<open>try\<close> of \<^verbatim>\<open>Job::exec\<close>) can
  raise at the import, at the assignment of the job proxy or at the assignment of the
  store proxy.
\<close>

datatype api_install = ImportRaises | JobAttrRaises | StorageAttrRaises | Installed

record world =
  tr :: "string \<Rightarrow> string"
  dir_exists :: "string \<Rightarrow> bool"
  dir_isReadable :: "string \<Rightarrow> bool"
  dir_absoluteFilePath :: "string \<Rightarrow> string \<Rightarrow> string"
  dir_dirName :: "string \<Rightarrow> string"
  fi_exists :: "string \<Rightarrow> bool"
  fi_isFile :: "string \<Rightarrow> bool"
  fi_isReadable :: "string \<Rightarrow> bool"
  fi_absoluteFilePath :: "string \<Rightarrow> string"
  s_preScript :: "string option"
  import_libcalamares :: api_install
  main_dict :: scope
  py_exec :: "string \<Rightarrow> scope \<Rightarrow> unit option ran"
  py_eval_file :: "string \<Rightarrow> scope \<Rightarrow> unit option ran"
  py_call :: "nat \<Rightarrow> scope \<Rightarrow> pyobj option ran"
  asQString :: "pyobj \<Rightarrow> cpp_exception + string"

text \<open>
  Modelled from the spec: \<^verbatim>\<open>asQString\<close> is declared in python/Pybind11Helpers.h, which
  is not among the sources, so \<^verbatim>\<open>Job::exec\<close> takes it from the world. The spec says of
  the value of \<^verbatim>\<open>run()\<close> that its two elements are text, carried unmodified, and that
  a wrong element type is an invalid result.
\<close>

fun asQString_spec :: "pyobj \<Rightarrow> cpp_exception + string" where
  "asQString_spec (PyStr s) = Inr s"
| "asQString_spec _ = Inl cast_error"

text \<open>\<^verbatim>\<open>struct Job::Private\<close>, without the configuration map, which \<^verbatim>\<open>exec\<close> does not read.\<close>

record Private =
  scriptFile :: string
  workingPath :: string
  description :: string

text \<open>Calling an object with no arguments: an object that is not callable raises \<^verbatim>\<open>TypeError\<close>.\<close>

fun call_object :: "world \<Rightarrow> pyobj \<Rightarrow> scope \<Rightarrow> pyobj option ran" where
  "call_object w (PyFunction f) g = py_call w f g"
| "call_object w _ g = \<lparr>emitted = [], result = None, globals = g\<rparr>"

subsection \<open>getPrettyNameFromScope\<close>

definition key_name :: string where "key_name = ''pretty_name''"
definition key_doc :: string where "key_doc = ''__doc__''"
definition key_run :: string where "key_run = ''run''"

text \<open>The second half of the function, from \<^verbatim>\<open>key_doc\<close> on: it calls no guest code.\<close>

definition doc_fallback :: "scope \<Rightarrow> string" where
  "doc_fallback sc =
     (case sc key_doc of
        None \<Rightarrow> []
      | Some doc \<Rightarrow>
          (case cast_std_string doc of
             Inl e \<Rightarrow> []
           | Inr s \<Rightarrow>
               (let string = trimmed (fromUtf8_c_str s);
                    newline_index = indexOf string (CHR 0x0A)
                in if newline_index \<ge> 0 then truncate_QString string newline_index else [])))"

text \<open>
  The whole function. The call \<^verbatim>\<open>func()\<close> is guest code; the handler around it is for
  \<^verbatim>\<open>py::cast_error\<close> only, so when the call raises, \<^verbatim>\<open>py::error_already_set\<close> leaves the
  function. The value is the description or the exception, with what the call did.
\<close>

definition getPrettyNameFromScope :: "world \<Rightarrow> scope \<Rightarrow> (cpp_exception + string) ran" where
  "getPrettyNameFromScope w sc =
     (case sc key_name of
        None \<Rightarrow> \<lparr>emitted = [], result = Inr (doc_fallback sc), globals = sc\<rparr>
      | Some func \<Rightarrow>
          (let r = call_object w func sc in
           case result r of
             None \<Rightarrow> \<lparr>emitted = emitted r, result = Inl error_already_set, globals = globals r\<rparr>
           | Some v \<Rightarrow>
               (case cast_std_string v of
                  Inr s \<Rightarrow> \<lparr>emitted = emitted r, result = Inr (fromUtf8_c_str s), globals = globals r\<rparr>
                | Inl e \<Rightarrow> \<lparr>emitted = emitted r, result = Inr (doc_fallback (globals r)),
                            globals = globals r\<rparr>)))"

subsection \<open>Job::exec\<close>

text \<open>
  What \<^verbatim>\<open>exec\<close> did, in order: the interpreter created and released (the scope of
  \<^verbatim>\<open>py::scoped_interpreter guard\<close>), the two proxies of the host API constructed, the
  description stored, a value sent on the signal \<^verbatim>\<open>progress\<close> (by \<^verbatim>\<open>exec\<close> itself or by
  guest code through \<^verbatim>\<open>Job::emitProgress\<close>), the lookup of \<^verbatim>\<open>run\<close> and its call.
\<close>

datatype event =
    InterpreterCreated
  | JobProxyConstructed
  | GlobalStorageProxyConstructed
  | DescriptionSet string
  | Progress real
  | LookupRun
  | RunInvoked
  | InterpreterReleased

text \<open>
  The outcome of \<^verbatim>\<open>exec\<close>: the \<^verbatim>\<open>JobResult\<close> it returns, or the C++ exception that leaves
  it; the private data of the job afterwards; the events.
\<close>

record exec_result =
  outcome :: "cpp_exception + JobResult"
  job :: Private
  events :: "event list"

definition prettyName :: "world \<Rightarrow> Private \<Rightarrow> string" where
  "prettyName w d = dir_dirName w (workingPath d)"

text \<open>The file that \<^verbatim>\<open>scriptFI\<close> names.\<close>

definition scriptFI :: "world \<Rightarrow> Private \<Rightarrow> string" where
  "scriptFI w d = dir_absoluteFilePath w (workingPath d) (scriptFile d)"

fun install_events :: "api_install \<Rightarrow> event list" where
  "install_events ImportRaises = []"
| "install_events JobAttrRaises = [JobProxyConstructed]"
| "install_events StorageAttrRaises = [JobProxyConstructed, GlobalStorageProxyConstructed]"
| "install_events Installed = [JobProxyConstructed, GlobalStorageProxyConstructed]"

text \<open>\<^verbatim>\<open>if ( s_preScript ) { py::exec( s_preScript ); }\<close>, in the globals of a fresh interpreter.\<close>

definition run_preScript :: "world \<Rightarrow> unit option ran" where
  "run_preScript w =
     (case s_preScript w of
        None \<Rightarrow> \<lparr>emitted = [], result = Some (), globals = main_dict w\<rparr>
      | Some script \<Rightarrow> py_exec w script (main_dict w))"

text \<open>\<^verbatim>\<open>py::eval_file( scriptFI.absoluteFilePath() )\<close>, in the globals the pre-script left.\<close>

definition load_script :: "world \<Rightarrow> Private \<Rightarrow> unit option ran" where
  "load_script w d =
     py_eval_file w (fi_absoluteFilePath w (scriptFI w d)) (globals (run_preScript w))"

text \<open>
  Lines 317 and 318: the value of \<^verbatim>\<open>run()\<close> as a tuple, and the error made of its
  elements 0 and 1. Each step can throw.
\<close>

definition error_of_items :: "world \<Rightarrow> pyobj \<Rightarrow> cpp_exception + JobResult" where
  "error_of_items w r =
     (case to_tuple r of
        Inl e \<Rightarrow> Inl e
      | Inr items \<Rightarrow>
          (case tuple_item items 0 of
             Inl e \<Rightarrow> Inl e
           | Inr item0 \<Rightarrow>
               (case asQString w item0 of
                  Inl e \<Rightarrow> Inl e
                | Inr summary \<Rightarrow>
                    (case tuple_item items 1 of
                       Inl e \<Rightarrow> Inl e
                     | Inr item1 \<Rightarrow>
                         (case asQString w item1 of
                            Inl e \<Rightarrow> Inl e
                          | Inr details \<Rightarrow> Inr (Error summary details))))))"

text \<open>
  From \<^verbatim>\<open>scope.contains( key_run )\<close> to the end of \<^verbatim>\<open>exec\<close>. Both handlers of the outer
  \<^verbatim>\<open>try\<close> return the same error, so nothing is thrown from here.
\<close>

definition exec_run :: "world \<Rightarrow> Private \<Rightarrow> scope \<Rightarrow> JobResult \<times> event list" where
  "exec_run w d sc =
     (case sc key_run of
        Some run \<Rightarrow>
          (let r = call_object w run sc in
           case result r of
             None \<Rightarrow>
               (InternalError (tr w ''Bad main script file'')
                  (arg (arg (tr w ''Main script file %1 for python job %2 raised an exception.'')
                     (fi_absoluteFilePath w (scriptFI w d))) (prettyName w d))
                  PythonUncaughtException,
                [LookupRun, RunInvoked] @ map Progress (emitted r))
           | Some v \<Rightarrow>
               (if v = PyNone then Success
                else (case error_of_items w v of
                        Inr res \<Rightarrow> res
                      | Inl cast_error \<Rightarrow>
                          Error (tr w ''Bad main script file'')
                            (arg (arg (tr w ''Main script file %1 for python job %2 returned invalid results.'')
                               (fi_absoluteFilePath w (scriptFI w d))) (prettyName w d))
                      | Inl error_already_set \<Rightarrow>
                          Error (tr w ''Bad main script file'')
                            (arg (arg (tr w ''Main script file %1 for python job %2 returned invalid results.'')
                               (fi_absoluteFilePath w (scriptFI w d))) (prettyName w d))),
                [LookupRun, RunInvoked] @ map Progress (emitted r)))
      | None \<Rightarrow>
          (Error (tr w ''Bad main script file'')
             (arg (arg (tr w ''Main script file %1 for python job %2 does not contain a run() function.'')
                (fi_absoluteFilePath w (scriptFI w d))) (prettyName w d)),
           [LookupRun]))"

text \<open>
  From \<^verbatim>\<open>auto scope = ...\<close> on, with the globals the script file left. The call of
  \<^verbatim>\<open>getPrettyNameFromScope\<close> is in no \<^verbatim>\<open>try\<close> block: what it throws leaves \<^verbatim>\<open>exec\<close>.
\<close>

definition exec_loaded :: "world \<Rightarrow> Private \<Rightarrow> scope \<Rightarrow> exec_result" where
  "exec_loaded w d sc =
     (let n = getPrettyNameFromScope w sc in
      case result n of
        Inl e \<Rightarrow> \<lparr>outcome = Inl e, job = d, events = map Progress (emitted n)\<rparr>
      | Inr name \<Rightarrow>
          (let d' = d\<lparr>description := name\<rparr>;
               (res, evs) = exec_run w d' (globals n)
           in \<lparr>outcome = Inr res, job = d',
               events = map Progress (emitted n) @ [DescriptionSet name, Progress 0] @ evs\<rparr>))"

text \<open>The part of \<^verbatim>\<open>exec\<close> in the scope of the interpreter guard.\<close>

definition exec_guarded :: "world \<Rightarrow> Private \<Rightarrow> exec_result" where
  "exec_guarded w d =
     (if import_libcalamares w \<noteq> Installed
      then \<lparr>outcome = Inl error_already_set, job = d,
            events = install_events (import_libcalamares w)\<rparr>
      else
        let pre = run_preScript w in
        if result pre = None
        then \<lparr>outcome = Inr (InternalError (tr w ''Bad internal script'')
                    (arg (tr w ''Internal script for python job %1 raised an exception.'')
                       (prettyName w d))
                    PythonUncaughtException),
              job = d,
              events = install_events Installed @ map Progress (emitted pre)\<rparr>
        else
          let load = load_script w d in
          if result load = None
          then \<lparr>outcome = Inr (InternalError (tr w ''Bad main script file'')
                      (arg (arg (tr w ''Main script file %1 for python job %2 could not be loaded because it raised an  exception.'')
                         (fi_absoluteFilePath w (scriptFI w d))) (prettyName w d))
                      PythonUncaughtException),
                job = d,
                events = install_events Installed @ map Progress (emitted pre)
                         @ map Progress (emitted load)\<rparr>
          else
            let r = exec_loaded w d (globals load)
            in r\<lparr>events := install_events Installed @ map Progress (emitted pre)
                              @ map Progress (emitted load) @ events r\<rparr>)"

definition exec :: "world \<Rightarrow> Private \<Rightarrow> exec_result" where
  "exec w d =
     (if \<not> dir_exists w (workingPath d) \<or> \<not> dir_isReadable w (workingPath d)
      then \<lparr>outcome = Inr (Error (tr w ''Bad working directory path'')
                  (arg (arg (tr w ''Working directory %1 for python job %2 is not readable.'')
                     (workingPath d)) (prettyName w d))),
            job = d, events = []\<rparr>
      else if \<not> fi_exists w (scriptFI w d) \<or> \<not> fi_isFile w (scriptFI w d)
              \<or> \<not> fi_isReadable w (scriptFI w d)
      then \<lparr>outcome = Inr (Error (tr w ''Bad main script file'')
                  (arg (arg (tr w ''Main script file %1 for python job %2 is not readable.'')
                     (fi_absoluteFilePath w (scriptFI w d))) (prettyName w d))),
            job = d, events = []\<rparr>
      else
        let r = exec_guarded w d
        in r\<lparr>events := [InterpreterCreated] @ events r @ [InterpreterReleased]\<rparr>)"

text \<open>\<^verbatim>\<open>Job::prettyStatusMessage\<close>.\<close>

definition prettyStatusMessage :: "world \<Rightarrow> Private \<Rightarrow> string" where
  "prettyStatusMessage w d =
     (if description d = [] then arg (tr w ''Running %1 operation.'') (prettyName w d)
      else description d)"

subsection \<open>The stages of an execution\<close>

text \<open>The two checks before the interpreter: the working directory and the script file.\<close>

definition preflight_ok :: "world \<Rightarrow> Private \<Rightarrow> bool" where
  "preflight_ok w d \<longleftrightarrow>
     dir_exists w (workingPath d) \<and> dir_isReadable w (workingPath d)
     \<and> fi_exists w (scriptFI w d) \<and> fi_isFile w (scriptFI w d) \<and> fi_isReadable w (scriptFI w d)"

text \<open>
  The guest script has loaded: the checks passed, the host API was installed, and
  neither the pre-script (when there is one) nor the script file raised.
\<close>

definition script_loaded :: "world \<Rightarrow> Private \<Rightarrow> bool" where
  "script_loaded w d \<longleftrightarrow>
     preflight_ok w d \<and> import_libcalamares w = Installed
     \<and> result (run_preScript w) = Some () \<and> result (load_script w d) = Some ()"

text \<open>The derivation of the description, on the globals the script file left.\<close>

definition derived :: "world \<Rightarrow> Private \<Rightarrow> (cpp_exception + string) ran" where
  "derived w d = getPrettyNameFromScope w (globals (load_script w d))"

text \<open>The call of the entry point \<open>run\<close>, on the globals the derivation left.\<close>

definition entry_call :: "world \<Rightarrow> Private \<Rightarrow> pyobj \<Rightarrow> pyobj option ran" where
  "entry_call w d run = call_object w run (globals (derived w d))"

text \<open>The events of an execution up to the derivation of the description.\<close>

definition load_events :: "world \<Rightarrow> Private \<Rightarrow> event list" where
  "load_events w d =
     [InterpreterCreated, JobProxyConstructed, GlobalStorageProxyConstructed]
     @ map Progress (emitted (run_preScript w)) @ map Progress (emitted (load_script w d))
     @ map Progress (emitted (derived w d))"

text \<open>
  The values of \<^verbatim>\<open>run()\<close> from which lines 317 and 318 make no error: the value is not
  iterable, or it has fewer than two elements, or \<^verbatim>\<open>asQString\<close> throws on element 0 or on
  element 1.
\<close>

definition invalid_shape :: "world \<Rightarrow> pyobj \<Rightarrow> bool" where
  "invalid_shape w v =
     (case to_tuple v of
        Inl e \<Rightarrow> True
      | Inr items \<Rightarrow>
          length items < 2 \<or> isl (asQString w (items ! 0)) \<or> isl (asQString w (items ! 1)))"

subsection \<open>Concrete jobs\<close>

text \<open>
  A world for examples: every path exists and is readable, no translation is installed,
  the job name is the last component of the working path, and the guest script is given
  by the bindings it adds to the globals and by what each of its function objects
  returns (\<open>None\<close>: it raises). A pre-script raises when it is \<^verbatim>\<open>raise SystemError\<close>.
\<close>

definition dirName0 :: "string \<Rightarrow> string" where
  "dirName0 p = rev (takeWhile (\<lambda>c. c \<noteq> CHR ''/'') (rev p))"

definition guest_world :: "(string \<times> pyobj) list \<Rightarrow> (nat \<Rightarrow> pyobj option) \<Rightarrow> world" where
  "guest_world defs body =
     \<lparr>tr = (\<lambda>s. s), dir_exists = (\<lambda>p. True), dir_isReadable = (\<lambda>p. True),
      dir_absoluteFilePath = (\<lambda>dir f. dir @ ''/'' @ f), dir_dirName = dirName0,
      fi_exists = (\<lambda>p. True), fi_isFile = (\<lambda>p. True), fi_isReadable = (\<lambda>p. True),
      fi_absoluteFilePath = (\<lambda>p. p),
      s_preScript = None, import_libcalamares = Installed,
      main_dict = [''__name__'' \<mapsto> PyStr ''__main__'', ''__doc__'' \<mapsto> PyNone],
      py_exec = (\<lambda>s g. \<lparr>emitted = [],
                          result = (if s = ''raise SystemError'' then None else Some ()),
                          globals = g\<rparr>),
      py_eval_file = (\<lambda>p g. \<lparr>emitted = [], result = Some (), globals = g ++ map_of defs\<rparr>),
      py_call = (\<lambda>f g. \<lparr>emitted = [], result = body f, globals = g\<rparr>),
      asQString = asQString_spec\<rparr>"

definition job0 :: Private where
  "job0 = \<lparr>scriptFile = ''main.py'', workingPath = ''/modules/unpackfs'', description = []\<rparr>"

section \<open>Properties\<close>

lemmas stage_defs = script_loaded_def preflight_ok_def run_preScript_def load_script_def derived_def
  entry_call_def scriptFI_def prettyName_def key_name_def key_doc_def key_run_def

lemmas example_defs = guest_world_def job0_def dirName0_def

lemmas eval_defs = getPrettyNameFromScope_def doc_fallback_def exec_def exec_guarded_def exec_loaded_def
  exec_run_def error_of_items_def tuple_item_def arg_def enter_def is_digit_def digitValue_def plain_def
  trimmed_def isSpace_def fromUtf8_c_str_def truncate_QString_def Let_def

subsection \<open>Place markers\<close>

lemma fold_min_mem: "fold min ms (m::nat) \<in> set (m # ms)"
proof (induction ms arbitrary: m)
  case Nil
  then show ?case by simp
next
  case (Cons x xs)
  have "fold min xs (min x m) \<in> set (min x m # xs)" by (rule Cons.IH)
  moreover have "min x m = x \<or> min x m = m" by (simp add: min_def)
  ultimately show ?case by auto
qed

lemma sublist_ConsR: "sublist a ys \<Longrightarrow> sublist a (c # ys)"
  by (simp add: sublist_Cons_right)

lemma sublist_appendR: "sublist a ys \<Longrightarrow> sublist a (xs @ ys)"
  by (simp add: sublist_append)

text \<open>Replacing a marker that occurs puts the argument into the text.\<close>

lemma replaceArgEscapes_inserts:
  "m \<in> set (escapes st s) \<Longrightarrow> sublist a (replaceArgEscapes m a st s)"
proof (induction s arbitrary: st)
  case Nil
  then show ?case by (cases st) auto
next
  case (Cons c cs)
  show ?case
  proof (cases st)
    case Text
    with Cons show ?thesis by (auto intro: sublist_appendR)
  next
    case Percent
    with Cons show ?thesis by (auto intro!: sublist_appendR sublist_ConsR split: if_splits)
  next
    case PercentL
    with Cons show ?thesis by (auto intro!: sublist_appendR sublist_ConsR split: if_splits)
  next
    case (Digit l d)
    with Cons show ?thesis by (auto intro!: sublist_appendR sublist_ConsR split: if_splits)
  qed
qed

lemma arg_inserts:
  assumes "escapes Text s \<noteq> []"
  shows "sublist a (arg s a)"
proof -
  from assms obtain m ms where e: "escapes Text s = m # ms"
    by (cases "escapes Text s") auto
  have "fold min ms m \<in> set (escapes Text s)"
    using fold_min_mem[of ms m] e by simp
  then have "sublist a (replaceArgEscapes (fold min ms m) a Text s)"
    by (rule replaceArgEscapes_inserts)
  then show ?thesis by (simp add: arg_def e)
qed

text \<open>A space ends whatever marker the scan was reading.\<close>

lemma escapes_after_space:
  "escapes st (xs @ CHR '' '' # ys) = escapes st xs @ escapes Text ys"
proof (induction xs arbitrary: st)
  case Nil
  show ?case by (cases st) (simp_all add: enter_def is_digit_def)
next
  case (Cons c cs)
  show ?case by (cases st) (simp_all add: Cons.IH)
qed

text \<open>
  The message of an exception in \<^verbatim>\<open>run()\<close>, as it is in the source: whatever the path
  of the script is, the marker for the job name is still there after the path has been
  put in.
\<close>

lemma untranslated_message_keeps_marker:
  "escapes Text (arg ''Main script file %1 for python job %2 raised an exception.'' path) \<noteq> []"
proof -
  have "arg ''Main script file %1 for python job %2 raised an exception.'' path
          = (''Main script file '' @ path) @ CHR '' '' # ''for python job %2 raised an exception.''"
    by (simp add: arg_def enter_def is_digit_def digitValue_def plain_def)
  moreover have "escapes Text ((''Main script file '' @ path) @ CHR '' '' # ''for python job %2 raised an exception.'')
     = escapes Text (''Main script file '' @ path) @ escapes Text ''for python job %2 raised an exception.''"
    by (rule escapes_after_space)
  moreover have "escapes Text ''for python job %2 raised an exception.'' = [2]"
    by (simp add: enter_def is_digit_def digitValue_def)
  ultimately show ?thesis by simp
qed

subsection \<open>The first line of a text\<close>

lemma indexOf_nonneg: "indexOf s c \<ge> 0 \<longleftrightarrow> c \<in> set s"
  by (induction s) (auto simp: Let_def)

lemma truncate_indexOf:
  "c \<in> set s \<Longrightarrow> truncate_QString s (indexOf s c) = takeWhile (\<lambda>x. x \<noteq> c) s"
proof (induction s)
  case Nil
  then show ?case by simp
next
  case (Cons x xs)
  show ?case
  proof (cases "x = c")
    case True
    then show ?thesis by (simp add: truncate_QString_def)
  next
    case False
    with Cons.prems have in_xs: "c \<in> set xs" by simp
    then have nn: "0 \<le> indexOf xs c" by (simp add: indexOf_nonneg)
    have "take (nat (indexOf xs c)) xs = takeWhile (\<lambda>x. x \<noteq> c) xs"
      using Cons.IH[OF in_xs] by (simp add: truncate_QString_def)
    with False nn show ?thesis
      by (simp add: truncate_QString_def Let_def nat_add_distrib)
  qed
qed

text \<open>
  What the second half of \<^verbatim>\<open>getPrettyNameFromScope\<close> makes of a text \<^verbatim>\<open>__doc__\<close>: the
  first line of the trimmed text when the trimmed text has a line feed, and nothing
  when it has none.
\<close>

lemma doc_fallback_text:
  assumes "sc key_doc = Some (PyStr s)"
  shows "doc_fallback sc =
           (if CHR 0x0A \<in> set (trimmed (fromUtf8_c_str s))
            then takeWhile (\<lambda>c. c \<noteq> CHR 0x0A) (trimmed (fromUtf8_c_str s))
            else [])"
  using assms by (simp add: doc_fallback_def Let_def indexOf_nonneg truncate_indexOf)

subsection \<open>How an execution reaches each stage\<close>

lemma prettyName_description [simp]: "prettyName w (d\<lparr>description := s\<rparr>) = prettyName w d"
  by (simp add: prettyName_def)

lemma scriptFI_description [simp]: "scriptFI w (d\<lparr>description := s\<rparr>) = scriptFI w d"
  by (simp add: scriptFI_def)

lemma exec_when_loaded:
  assumes "script_loaded w d"
  shows "outcome (exec w d) = outcome (exec_loaded w d (globals (load_script w d)))"
    and "job (exec w d) = job (exec_loaded w d (globals (load_script w d)))"
    and "events (exec w d) =
           [InterpreterCreated, JobProxyConstructed, GlobalStorageProxyConstructed]
           @ map Progress (emitted (run_preScript w)) @ map Progress (emitted (load_script w d))
           @ events (exec_loaded w d (globals (load_script w d))) @ [InterpreterReleased]"
  using assms
  by (simp_all add: script_loaded_def preflight_ok_def exec_def exec_guarded_def Let_def)

lemma exec_loaded_when_derived:
  assumes "result (getPrettyNameFromScope w sc) = Inr name"
  shows "outcome (exec_loaded w d sc)
           = Inr (fst (exec_run w (d\<lparr>description := name\<rparr>) (globals (getPrettyNameFromScope w sc))))"
    and "job (exec_loaded w d sc) = d\<lparr>description := name\<rparr>"
    and "events (exec_loaded w d sc) =
           map Progress (emitted (getPrettyNameFromScope w sc)) @ [DescriptionSet name, Progress 0]
           @ snd (exec_run w (d\<lparr>description := name\<rparr>) (globals (getPrettyNameFromScope w sc)))"
  using assms
  by (simp_all add: exec_loaded_def Let_def split: prod.splits)

text \<open>
  When the script has loaded and the derivation of the description returns, \<^verbatim>\<open>exec\<close> stores
  the description, emits progress 0 and goes on to the entry point.
\<close>

lemma exec_when_derived:
  assumes "script_loaded w d" and "result (derived w d) = Inr name"
  shows "outcome (exec w d) = Inr (fst (exec_run w (d\<lparr>description := name\<rparr>) (globals (derived w d))))"
    and "job (exec w d) = d\<lparr>description := name\<rparr>"
    and "events (exec w d) =
           load_events w d @ [DescriptionSet name, Progress 0]
           @ snd (exec_run w (d\<lparr>description := name\<rparr>) (globals (derived w d))) @ [InterpreterReleased]"
  using assms exec_loaded_when_derived[of w "globals (load_script w d)" name d]
  by (simp_all add: exec_when_loaded derived_def load_events_def)

text \<open>When the derivation throws, the exception leaves \<^verbatim>\<open>exec\<close>, and nothing else happens.\<close>

lemma exec_when_derivation_throws:
  assumes "script_loaded w d" and "result (derived w d) = Inl e"
  shows "outcome (exec w d) = Inl e"
    and "events (exec w d) = load_events w d @ [InterpreterReleased]"
  using assms
  by (simp_all add: exec_when_loaded derived_def load_events_def exec_loaded_def Let_def)

text \<open>The derivation throws exactly when \<^verbatim>\<open>pretty_name\<close> is bound and calling it raises.\<close>

lemma derived_throws:
  assumes "globals (load_script w d) key_name = Some func"
    and "result (call_object w func (globals (load_script w d))) = None"
  shows "result (derived w d) = Inl error_already_set"
  using assms by (simp add: derived_def getPrettyNameFromScope_def Let_def)

lemma derived_throws_iff:
  "isl (result (derived w d)) \<longleftrightarrow>
     (\<exists>func. globals (load_script w d) key_name = Some func
        \<and> result (call_object w func (globals (load_script w d))) = None)"
  by (auto simp: derived_def getPrettyNameFromScope_def Let_def split: option.splits sum.splits)

text \<open>
  An exception leaves \<^verbatim>\<open>exec\<close> in two cases and no other: the host API could not be
  installed, or the script has loaded and the derivation of its description throws.
\<close>

lemma exec_throws_iff:
  "isl (outcome (exec w d)) \<longleftrightarrow>
     preflight_ok w d
     \<and> (import_libcalamares w \<noteq> Installed \<or> (script_loaded w d \<and> isl (result (derived w d))))"
proof (cases "script_loaded w d")
  case True
  show ?thesis
  proof (cases "result (derived w d)")
    case (Inl e)
    with True show ?thesis
      by (simp add: exec_when_derivation_throws script_loaded_def)
  next
    case (Inr name)
    with True show ?thesis
      by (simp add: exec_when_derived script_loaded_def)
  qed
next
  case False
  then show ?thesis
    by (auto simp: script_loaded_def preflight_ok_def exec_def exec_guarded_def Let_def)
qed

text \<open>A failure to install the host API leaves \<^verbatim>\<open>exec\<close> as an exception.\<close>

lemma install_failure_propagates:
  assumes "preflight_ok w d" and "import_libcalamares w \<noteq> Installed"
  shows "outcome (exec w d) = Inl error_already_set"
  using assms by (simp add: preflight_ok_def exec_def exec_guarded_def Let_def)

text \<open>What lines 317 and 318 make of the value of \<^verbatim>\<open>run()\<close>.\<close>

lemma error_of_items_invalid: "invalid_shape w v \<Longrightarrow> isl (error_of_items w v)"
  by (auto simp: invalid_shape_def error_of_items_def tuple_item_def isl_def split: sum.splits)

lemma error_of_items_valid:
  assumes "to_tuple v = Inr items" and "2 \<le> length items"
    and "asQString w (items ! 0) = Inr summary" and "asQString w (items ! 1) = Inr details"
  shows "error_of_items w v = Inr (Error summary details)"
  using assms by (auto simp: error_of_items_def tuple_item_def)

text \<open>
  The shapes that are invalid whatever \<^verbatim>\<open>asQString\<close> does: a value that is not a
  sequence, and a sequence that is too short. With \<^verbatim>\<open>asQString\<close> as the specification
  describes it, an element 0 or 1 that is not text is invalid too.
\<close>

lemma invalid_shape_cases:
  "invalid_shape w (PyInt n)"
  "invalid_shape w (PyFunction f)"
  "length xs < 2 \<Longrightarrow> invalid_shape w (PyTuple xs)"
  "length xs < 2 \<Longrightarrow> invalid_shape w (PyList xs)"
  "length s < 2 \<Longrightarrow> invalid_shape w (PyStr s)"
  by (simp_all add: invalid_shape_def)

lemma invalid_shape_non_text:
  assumes "asQString w = asQString_spec"
    and "asQString_spec a = Inl cast_error \<or> asQString_spec b = Inl cast_error"
  shows "invalid_shape w (PyTuple (a # b # xs))" and "invalid_shape w (PyList (a # b # xs))"
  using assms by (auto simp: invalid_shape_def)

text \<open>
  A sequence of two elements or more, whose elements 0 and 1 \<^verbatim>\<open>asQString\<close> accepts, makes
  the error of these two, however long it is.
\<close>

lemma first_two_elements_make_the_error:
  assumes "script_loaded w d"
    and "result (derived w d) = Inr name"
    and "globals (derived w d) key_run = Some run"
    and "result (entry_call w d run) = Some v"
    and "to_tuple v = Inr items" and "2 \<le> length items"
    and "asQString w (items ! 0) = Inr summary" and "asQString w (items ! 1) = Inr details"
  shows "outcome (exec w d) = Inr (Error summary details)"
proof -
  have "v \<noteq> PyNone" using assms(5) by auto
  moreover have "error_of_items w v = Inr (Error summary details)"
    using assms(5-8) by (rule error_of_items_valid)
  ultimately show ?thesis using assms(1-4)
    by (simp add: exec_when_derived exec_run_def entry_call_def Let_def)
qed

subsection \<open>The claims\<close>

text \<open>
  Claim C1. The claim: when the script's \<^verbatim>\<open>pretty_name\<close> raises while the description is
  derived, \<^verbatim>\<open>exec\<close> still returns a job result, and no condition raised by the guest
  leaves the adapter. The code does otherwise: the handler in
  \<^verbatim>\<open>getPrettyNameFromScope\<close> is for \<^verbatim>\<open>py::cast_error\<close>, the call in \<^verbatim>\<open>exec\<close> is in no
  \<^verbatim>\<open>try\<close> block, and so, for every script that has loaded and binds \<^verbatim>\<open>pretty_name\<close> to
  an object whose call raises (or that cannot be called), \<^verbatim>\<open>py::error_already_set\<close>
  leaves \<^verbatim>\<open>exec\<close>. The pre-script, the script file and \<^verbatim>\<open>run()\<close> each have a handler for
  that exception; this call has none.
\<close>

theorem pretty_name_raise_leaves_exec:
  assumes "script_loaded w d"
    and "globals (load_script w d) key_name = Some func"
    and "result (call_object w func (globals (load_script w d))) = None"
  shows "outcome (exec w d) = Inl error_already_set"
  using assms by (simp add: exec_when_derivation_throws derived_throws)

theorem pretty_name_raise_leaves_exec_witness:
  "script_loaded
     (guest_world [(''pretty_name'', PyFunction 1), (''run'', PyFunction 0)]
        (\<lambda>f. if f = 1 then None else Some PyNone)) job0
   \<and> outcome (exec
        (guest_world [(''pretty_name'', PyFunction 1), (''run'', PyFunction 0)]
           (\<lambda>f. if f = 1 then None else Some PyNone)) job0) = Inl error_already_set"
proof -
  let ?w = "guest_world [(''pretty_name'', PyFunction 1), (''run'', PyFunction 0)]
              (\<lambda>f. if f = 1 then None else Some PyNone)"
  have h1: "script_loaded ?w job0"
    by (simp add: stage_defs example_defs)
  have h2: "globals (load_script ?w job0) key_name = Some (PyFunction 1)"
    by (simp add: stage_defs example_defs)
  have h3: "result (call_object ?w (PyFunction 1) (globals (load_script ?w job0))) = None"
    by (simp add: stage_defs example_defs)
  from h1 pretty_name_raise_leaves_exec [OF h1 h2 h3] show ?thesis by simp
qed

text \<open>
  Claim C2, as stated, fails: for a script that binds neither \<^verbatim>\<open>run\<close> nor \<^verbatim>\<open>pretty_name\<close>
  the summary of the error is not \<^verbatim>\<open>missing entry point\<close> but \<^verbatim>\<open>Bad main script file\<close>,
  which is the summary of four other results of \<^verbatim>\<open>exec\<close> too (an unreadable script file, a
  raise while loading, a raise in \<^verbatim>\<open>run()\<close>, invalid results); that the entry point is
  missing is said in the details.
\<close>

theorem missing_run_summary_counterexample:
  "outcome (exec (guest_world [] (\<lambda>f. None)) job0) =
     Inr (Error ''Bad main script file''
            ''Main script file /modules/unpackfs/main.py for python job unpackfs does not contain a run() function.'')"
  by (simp add: stage_defs example_defs eval_defs)

text \<open>
  Claim C2, amended. For every script that has loaded, when the derivation of the
  description returns (\<^verbatim>\<open>pretty_name\<close> is not bound, or its call returns; \<^verbatim>\<open>__doc__\<close> is
  bound or not) and the globals bind no \<^verbatim>\<open>run\<close>, \<^verbatim>\<open>exec\<close> returns an error whose summary
  is the translation of \<^verbatim>\<open>Bad main script file\<close> and whose details are the translation
  of \<^verbatim>\<open>Main script file %1 for python job %2 does not contain a run() function.\<close> with
  the path of the script and the name of the job put in.
\<close>

theorem missing_run_is_error:
  assumes "script_loaded w d"
    and "result (derived w d) = Inr name"
    and "globals (derived w d) key_run = None"
  shows "outcome (exec w d) =
           Inr (Error (tr w ''Bad main script file'')
                  (arg (arg (tr w ''Main script file %1 for python job %2 does not contain a run() function.'')
                     (fi_absoluteFilePath w (scriptFI w d))) (prettyName w d)))"
  using assms by (simp add: exec_when_derived exec_run_def)

theorem missing_run_is_error_witness:
  "script_loaded (guest_world [(''pretty_name'', PyFunction 1)] (\<lambda>f. Some (PyStr ''Unpack''))) job0
   \<and> result (derived (guest_world [(''pretty_name'', PyFunction 1)] (\<lambda>f. Some (PyStr ''Unpack''))) job0)
       = Inr ''Unpack''
   \<and> globals (derived (guest_world [(''pretty_name'', PyFunction 1)] (\<lambda>f. Some (PyStr ''Unpack''))) job0)
         key_run = None
   \<and> outcome (exec (guest_world [(''pretty_name'', PyFunction 1)] (\<lambda>f. Some (PyStr ''Unpack''))) job0) =
       Inr (Error ''Bad main script file''
              ''Main script file /modules/unpackfs/main.py for python job unpackfs does not contain a run() function.'')"
proof -
  let ?w = "guest_world [(''pretty_name'', PyFunction 1)] (\<lambda>f. Some (PyStr ''Unpack''))"
  have h1: "script_loaded ?w job0"
    by (simp add: stage_defs example_defs)
  have h2: "result (derived ?w job0) = Inr ''Unpack''"
    by (simp add: stage_defs example_defs eval_defs)
  have h3: "globals (derived ?w job0) key_run = None"
    by (simp add: stage_defs example_defs eval_defs)
  have "outcome (exec ?w job0) =
           Inr (Error (tr ?w ''Bad main script file'')
                  (arg (arg (tr ?w ''Main script file %1 for python job %2 does not contain a run() function.'')
                     (fi_absoluteFilePath ?w (scriptFI ?w job0))) (prettyName ?w job0)))"
    by (rule missing_run_is_error [OF h1 h2 h3])
  moreover have "tr ?w = (\<lambda>s. s)"
    and "fi_absoluteFilePath ?w (scriptFI ?w job0) = ''/modules/unpackfs/main.py''"
    and "prettyName ?w job0 = ''unpackfs''"
    by (simp_all add: stage_defs example_defs)
  moreover have "arg (arg ''Main script file %1 for python job %2 does not contain a run() function.''
                     ''/modules/unpackfs/main.py'') ''unpackfs''
     = ''Main script file /modules/unpackfs/main.py for python job unpackfs does not contain a run() function.''"
    by (simp add: eval_defs)
  ultimately show ?thesis using h1 h2 h3 by simp
qed

text \<open>
  Claim C3, as stated, fails: a sequence of three texts has a length different from 2,
  and \<^verbatim>\<open>exec\<close> returns the error made of its first two elements, not the error for
  invalid results. The code converts the value to a tuple and reads elements 0 and 1; it
  never looks at the length.
\<close>

theorem three_element_sequence_counterexample:
  "outcome (exec (guest_world [(''run'', PyFunction 0)]
              (\<lambda>f. Some (PyTuple [PyStr ''a'', PyStr ''b'', PyStr ''c'']))) job0)
     = Inr (Error ''a'' ''b'')"
  by (simp add: stage_defs example_defs eval_defs)

text \<open>
  Claim C3, amended. For every call of \<^verbatim>\<open>run()\<close> whose value is not \<^verbatim>\<open>None\<close> and is not
  iterable, or has fewer than two elements, or has an element 0 or 1 on which
  \<^verbatim>\<open>asQString\<close> throws, \<^verbatim>\<open>exec\<close> returns an error whose summary is the translation of
  \<^verbatim>\<open>Bad main script file\<close> and whose details are the translation of
  \<^verbatim>\<open>Main script file %1 for python job %2 returned invalid results.\<close> with the path of the
  script and the name of the job put in.
\<close>

theorem invalid_results_is_error:
  assumes "script_loaded w d"
    and "result (derived w d) = Inr name"
    and "globals (derived w d) key_run = Some run"
    and "result (entry_call w d run) = Some v"
    and "v \<noteq> PyNone"
    and "invalid_shape w v"
  shows "outcome (exec w d) =
           Inr (Error (tr w ''Bad main script file'')
                  (arg (arg (tr w ''Main script file %1 for python job %2 returned invalid results.'')
                     (fi_absoluteFilePath w (scriptFI w d))) (prettyName w d)))"
proof -
  from assms(6) obtain e where "error_of_items w v = Inl e"
    using error_of_items_invalid[of w v] by (auto simp: isl_def)
  with assms(1-5) show ?thesis
    by (cases e) (simp_all add: exec_when_derived exec_run_def entry_call_def Let_def)
qed

theorem invalid_results_is_error_witness:
  "script_loaded (guest_world [(''run'', PyFunction 0)] (\<lambda>f. Some (PyInt 3))) job0
   \<and> result (entry_call (guest_world [(''run'', PyFunction 0)] (\<lambda>f. Some (PyInt 3))) job0 (PyFunction 0))
       = Some (PyInt 3)
   \<and> invalid_shape (guest_world [(''run'', PyFunction 0)] (\<lambda>f. Some (PyInt 3))) (PyInt 3)
   \<and> invalid_shape (guest_world [(''run'', PyFunction 0)] (\<lambda>f. Some (PyTuple [PyStr ''only one''])))
         (PyTuple [PyStr ''only one''])
   \<and> outcome (exec (guest_world [(''run'', PyFunction 0)] (\<lambda>f. Some (PyInt 3))) job0) =
       Inr (Error ''Bad main script file''
              ''Main script file /modules/unpackfs/main.py for python job unpackfs returned invalid results.'')
   \<and> outcome (exec (guest_world [(''run'', PyFunction 0)] (\<lambda>f. Some (PyTuple [PyStr ''only one'']))) job0) =
       Inr (Error ''Bad main script file''
              ''Main script file /modules/unpackfs/main.py for python job unpackfs returned invalid results.'')"
proof -
  let ?u = "PyInt 3"
  let ?v = "PyTuple [PyStr ''only one'']"
  let ?a = "guest_world [(''run'', PyFunction 0)] (\<lambda>f. Some ?u)"
  let ?b = "guest_world [(''run'', PyFunction 0)] (\<lambda>f. Some ?v)"
  have a1: "script_loaded ?a job0" and b1: "script_loaded ?b job0"
    by (simp_all add: stage_defs example_defs)
  have a2: "result (derived ?a job0) = Inr []" and b2: "result (derived ?b job0) = Inr []"
    by (simp_all add: stage_defs example_defs eval_defs)
  have a3: "globals (derived ?a job0) key_run = Some (PyFunction 0)"
    and b3: "globals (derived ?b job0) key_run = Some (PyFunction 0)"
    by (simp_all add: stage_defs example_defs eval_defs)
  have a4: "result (entry_call ?a job0 (PyFunction 0)) = Some ?u"
    and b4: "result (entry_call ?b job0 (PyFunction 0)) = Some ?v"
    by (simp_all add: stage_defs example_defs)
  have a5: "?u \<noteq> PyNone" and b5: "?v \<noteq> PyNone" by simp_all
  have a6: "invalid_shape ?a ?u" and b6: "invalid_shape ?b ?v"
    by (simp_all add: invalid_shape_def)
  have env: "tr ?a = (\<lambda>s. s)" "fi_absoluteFilePath ?a (scriptFI ?a job0) = ''/modules/unpackfs/main.py''"
    "prettyName ?a job0 = ''unpackfs''"
    "tr ?b = (\<lambda>s. s)" "fi_absoluteFilePath ?b (scriptFI ?b job0) = ''/modules/unpackfs/main.py''"
    "prettyName ?b job0 = ''unpackfs''"
    by (simp_all add: stage_defs example_defs)
  have msg: "arg (arg ''Main script file %1 for python job %2 returned invalid results.''
                     ''/modules/unpackfs/main.py'') ''unpackfs''
     = ''Main script file /modules/unpackfs/main.py for python job unpackfs returned invalid results.''"
    by (simp add: eval_defs)
  from invalid_results_is_error [OF a1 a2 a3 a4 a5 a6] invalid_results_is_error [OF b1 b2 b3 b4 b5 b6]
    a1 a4 a6 b6 env msg
  show ?thesis by simp
qed

text \<open>
  Claim C4. For every call of \<^verbatim>\<open>run()\<close> whose value is a sequence of exactly two texts,
  \<^verbatim>\<open>exec\<close> returns the error whose summary is element 0 and whose details are element 1,
  both as they are. The conversion of an element is \<^verbatim>\<open>asQString\<close>, here as the
  specification describes it.
\<close>

theorem error_pair_unmodified:
  assumes "script_loaded w d"
    and "result (derived w d) = Inr name"
    and "globals (derived w d) key_run = Some run"
    and "result (entry_call w d run) = Some v"
    and "to_tuple v = Inr [PyStr summary, PyStr details]"
    and "asQString w = asQString_spec"
  shows "outcome (exec w d) = Inr (Error summary details)"
proof -
  have "v \<noteq> PyNone" using assms(5) by auto
  moreover have "error_of_items w v = Inr (Error summary details)"
    using assms(5,6) by (simp add: error_of_items_valid)
  ultimately show ?thesis using assms(1-4)
    by (simp add: exec_when_derived exec_run_def entry_call_def Let_def)
qed

theorem error_pair_unmodified_witness:
  "script_loaded (guest_world [(''run'', PyFunction 0)]
      (\<lambda>f. Some (PyTuple [PyStr ''No rootfs'', PyStr ''Nothing to unpack.'']))) job0
   \<and> to_tuple (PyTuple [PyStr ''No rootfs'', PyStr ''Nothing to unpack.''])
       = Inr [PyStr ''No rootfs'', PyStr ''Nothing to unpack.'']
   \<and> outcome (exec (guest_world [(''run'', PyFunction 0)]
      (\<lambda>f. Some (PyTuple [PyStr ''No rootfs'', PyStr ''Nothing to unpack.'']))) job0)
       = Inr (Error ''No rootfs'' ''Nothing to unpack.'')"
proof -
  let ?v = "PyTuple [PyStr ''No rootfs'', PyStr ''Nothing to unpack.'']"
  let ?w = "guest_world [(''run'', PyFunction 0)] (\<lambda>f. Some ?v)"
  have h1: "script_loaded ?w job0"
    by (simp add: stage_defs example_defs)
  have h2: "result (derived ?w job0) = Inr []"
    by (simp add: stage_defs example_defs eval_defs)
  have h3: "globals (derived ?w job0) key_run = Some (PyFunction 0)"
    by (simp add: stage_defs example_defs eval_defs)
  have h4: "result (entry_call ?w job0 (PyFunction 0)) = Some ?v"
    by (simp add: stage_defs example_defs)
  have h5: "to_tuple ?v = Inr [PyStr ''No rootfs'', PyStr ''Nothing to unpack.'']" by simp
  have h6: "asQString ?w = asQString_spec" by (simp add: example_defs)
  from h1 h5 error_pair_unmodified [OF h1 h2 h3 h4 h5 h6] show ?thesis by simp
qed

text \<open>
  Claim C5. Whenever \<^verbatim>\<open>run()\<close> is called and returns \<^verbatim>\<open>None\<close>, \<^verbatim>\<open>exec\<close> returns
  success. The call happens when the script has loaded (valid working directory,
  readable script file, host API installed, no raise while loading), the derivation of
  the description has returned and the globals bind \<^verbatim>\<open>run\<close>.
\<close>

theorem none_is_success:
  assumes "script_loaded w d"
    and "result (derived w d) = Inr name"
    and "globals (derived w d) key_run = Some run"
    and "result (entry_call w d run) = Some PyNone"
  shows "outcome (exec w d) = Inr Success"
  using assms by (simp add: exec_when_derived exec_run_def entry_call_def Let_def)

theorem none_is_success_witness:
  "script_loaded (guest_world [(''run'', PyFunction 0)] (\<lambda>f. Some PyNone)) job0
   \<and> result (derived (guest_world [(''run'', PyFunction 0)] (\<lambda>f. Some PyNone)) job0) = Inr []
   \<and> globals (derived (guest_world [(''run'', PyFunction 0)] (\<lambda>f. Some PyNone)) job0) key_run
       = Some (PyFunction 0)
   \<and> result (entry_call (guest_world [(''run'', PyFunction 0)] (\<lambda>f. Some PyNone)) job0 (PyFunction 0))
       = Some PyNone
   \<and> outcome (exec (guest_world [(''run'', PyFunction 0)] (\<lambda>f. Some PyNone)) job0) = Inr Success"
proof -
  let ?w = "guest_world [(''run'', PyFunction 0)] (\<lambda>f. Some PyNone)"
  have h1: "script_loaded ?w job0"
    by (simp add: stage_defs example_defs)
  have h2: "result (derived ?w job0) = Inr []"
    by (simp add: stage_defs example_defs getPrettyNameFromScope_def doc_fallback_def)
  have h3: "globals (derived ?w job0) key_run = Some (PyFunction 0)"
    by (simp add: stage_defs example_defs getPrettyNameFromScope_def)
  have h4: "result (entry_call ?w job0 (PyFunction 0)) = Some PyNone"
    by (simp add: stage_defs example_defs)
  from h1 h2 h3 h4 none_is_success [OF h1 h2 h3 h4] show ?thesis by simp
qed

text \<open>
  Claim C6. Whenever \<^verbatim>\<open>run()\<close> is called and raises, \<^verbatim>\<open>exec\<close> returns (nothing is
  thrown) an internal error with the code \<^verbatim>\<open>PythonUncaughtException\<close>, and the name of
  the job is part of its details. The details are a translated message with two place
  markers; the name is put in second, so the premise on the translation is that a
  place marker is left once the path of the script has been put in. The message of the
  source has one for every path (\<open>untranslated_message_keeps_marker\<close>).
\<close>

theorem run_raise_is_internal_error:
  assumes "script_loaded w d"
    and "result (derived w d) = Inr name"
    and "globals (derived w d) key_run = Some run"
    and "result (entry_call w d run) = None"
    and "escapes Text (arg (tr w ''Main script file %1 for python job %2 raised an exception.'')
                         (fi_absoluteFilePath w (scriptFI w d))) \<noteq> []"
  shows "\<exists>details.
           outcome (exec w d)
             = Inr (InternalError (tr w ''Bad main script file'') details PythonUncaughtException)
           \<and> sublist (prettyName w d) details"
proof -
  let ?details = "arg (arg (tr w ''Main script file %1 for python job %2 raised an exception.'')
                         (fi_absoluteFilePath w (scriptFI w d))) (prettyName w d)"
  have "outcome (exec w d)
          = Inr (InternalError (tr w ''Bad main script file'') ?details PythonUncaughtException)"
    using assms(1-4) by (simp add: exec_when_derived exec_run_def entry_call_def Let_def)
  moreover have "sublist (prettyName w d) ?details"
    using assms(5) by (rule arg_inserts)
  ultimately show ?thesis by blast
qed

theorem run_raise_is_internal_error_witness:
  "script_loaded (guest_world [(''run'', PyFunction 0)] (\<lambda>f. None)) job0
   \<and> result (entry_call (guest_world [(''run'', PyFunction 0)] (\<lambda>f. None)) job0 (PyFunction 0)) = None
   \<and> prettyName (guest_world [(''run'', PyFunction 0)] (\<lambda>f. None)) job0 = ''unpackfs''
   \<and> outcome (exec (guest_world [(''run'', PyFunction 0)] (\<lambda>f. None)) job0)
       = Inr (InternalError ''Bad main script file''
                ''Main script file /modules/unpackfs/main.py for python job unpackfs raised an exception.''
                PythonUncaughtException)
   \<and> sublist ''unpackfs''
         ''Main script file /modules/unpackfs/main.py for python job unpackfs raised an exception.''"
proof -
  let ?w = "guest_world [(''run'', PyFunction 0)] (\<lambda>f. None)"
  have h1: "script_loaded ?w job0"
    by (simp add: stage_defs example_defs)
  have h2: "result (derived ?w job0) = Inr []"
    by (simp add: stage_defs example_defs eval_defs)
  have h3: "globals (derived ?w job0) key_run = Some (PyFunction 0)"
    by (simp add: stage_defs example_defs eval_defs)
  have h4: "result (entry_call ?w job0 (PyFunction 0)) = None"
    by (simp add: stage_defs example_defs)
  have h5: "escapes Text (arg (tr ?w ''Main script file %1 for python job %2 raised an exception.'')
                         (fi_absoluteFilePath ?w (scriptFI ?w job0))) \<noteq> []"
    by (simp add: example_defs untranslated_message_keeps_marker)
  have p: "prettyName ?w job0 = ''unpackfs''" "tr ?w = (\<lambda>s. s)"
    by (simp_all add: stage_defs example_defs)
  have e: "outcome (exec ?w job0)
       = Inr (InternalError ''Bad main script file''
                ''Main script file /modules/unpackfs/main.py for python job unpackfs raised an exception.''
                PythonUncaughtException)"
    by (simp add: stage_defs example_defs eval_defs)
  from run_raise_is_internal_error [OF h1 h2 h3 h4 h5] obtain details
    where "outcome (exec ?w job0)
             = Inr (InternalError (tr ?w ''Bad main script file'') details PythonUncaughtException)"
      and "sublist (prettyName ?w job0) details"
    by blast
  with e p have "sublist ''unpackfs''
         ''Main script file /modules/unpackfs/main.py for python job unpackfs raised an exception.''"
    by simp
  with h1 h4 p e show ?thesis by simp
qed

text \<open>
  Claim C7. The claim: without a usable \<^verbatim>\<open>pretty_name\<close>, the description is the trimmed
  \<^verbatim>\<open>__doc__\<close> up to its first line feed, if any, and a \<^verbatim>\<open>__doc__\<close> of one line is the
  description as it is. The code does otherwise for a \<^verbatim>\<open>__doc__\<close> of one line: it
  returns the text only inside the test for a line feed, so, for every script that has
  loaded, binds no \<^verbatim>\<open>pretty_name\<close> and has a text \<^verbatim>\<open>__doc__\<close> whose trimmed text has no
  line feed, the description is empty. The comment in the source at that place reads
  \<^verbatim>\<open>__doc__ is apparently empty\<close>. With a line feed the description is the first line
  (\<open>doc_with_newline_gives_first_line\<close>).
\<close>

theorem doc_without_newline_gives_empty:
  assumes "script_loaded w d"
    and "globals (load_script w d) key_name = None"
    and "globals (load_script w d) key_doc = Some (PyStr s)"
    and "CHR 0x0A \<notin> set (trimmed (fromUtf8_c_str s))"
  shows "result (derived w d) = Inr [] \<and> description (job (exec w d)) = []"
proof -
  have "result (derived w d) = Inr []"
    using assms(2-4) by (simp add: derived_def getPrettyNameFromScope_def doc_fallback_text)
  with assms(1) show ?thesis by (simp add: exec_when_derived)
qed

theorem doc_without_newline_gives_empty_witness:
  "script_loaded (guest_world [(''__doc__'', PyStr ''First line.''), (''run'', PyFunction 0)]
      (\<lambda>f. Some PyNone)) job0
   \<and> globals (load_script (guest_world [(''__doc__'', PyStr ''First line.''), (''run'', PyFunction 0)]
      (\<lambda>f. Some PyNone)) job0) key_name = None
   \<and> globals (load_script (guest_world [(''__doc__'', PyStr ''First line.''), (''run'', PyFunction 0)]
      (\<lambda>f. Some PyNone)) job0) key_doc = Some (PyStr ''First line.'')
   \<and> trimmed (fromUtf8_c_str ''First line.'') = ''First line.''
   \<and> description (job (exec (guest_world [(''__doc__'', PyStr ''First line.''), (''run'', PyFunction 0)]
      (\<lambda>f. Some PyNone)) job0)) = []"
proof -
  let ?w = "guest_world [(''__doc__'', PyStr ''First line.''), (''run'', PyFunction 0)] (\<lambda>f. Some PyNone)"
  have h1: "script_loaded ?w job0"
    by (simp add: stage_defs example_defs)
  have h2: "globals (load_script ?w job0) key_name = None"
    by (simp add: stage_defs example_defs)
  have h3: "globals (load_script ?w job0) key_doc = Some (PyStr ''First line.'')"
    by (simp add: stage_defs example_defs)
  have t: "trimmed (fromUtf8_c_str ''First line.'') = ''First line.''"
    by (simp add: trimmed_def fromUtf8_c_str_def isSpace_def)
  have h4: "CHR 0x0A \<notin> set (trimmed (fromUtf8_c_str ''First line.''))"
    by (simp add: t)
  from h1 h2 h3 t doc_without_newline_gives_empty [OF h1 h2 h3 h4] show ?thesis by simp
qed

lemma doc_with_newline_gives_first_line:
  assumes "script_loaded w d"
    and "globals (load_script w d) key_name = None"
    and "globals (load_script w d) key_doc = Some (PyStr s)"
    and "CHR 0x0A \<in> set (trimmed (fromUtf8_c_str s))"
  shows "description (job (exec w d)) = takeWhile (\<lambda>c. c \<noteq> CHR 0x0A) (trimmed (fromUtf8_c_str s))"
proof -
  have "result (derived w d) = Inr (takeWhile (\<lambda>c. c \<noteq> CHR 0x0A) (trimmed (fromUtf8_c_str s)))"
    using assms(2-4) by (simp add: derived_def getPrettyNameFromScope_def doc_fallback_text)
  with assms(1) show ?thesis by (simp add: exec_when_derived)
qed

lemma first_line_example:
  "description (job (exec (guest_world [(''__doc__'', PyStr ''First line.\<newline>Second line.'')] (\<lambda>f. None)) job0))
     = ''First line.''"
  by (simp add: stage_defs example_defs eval_defs)

text \<open>
  Claim C8. When the working directory does not exist or cannot be read, or the script
  file does not exist, is not a regular file or cannot be read, \<^verbatim>\<open>exec\<close> returns an
  error (not an internal error) and nothing has happened before: no interpreter was
  created and no proxy of the host API was constructed.
\<close>

theorem preflight_failure_is_error:
  assumes "\<not> preflight_ok w d"
  shows "(\<exists>summary details. outcome (exec w d) = Inr (Error summary details))
         \<and> events (exec w d) = []"
  using assms by (auto simp: preflight_ok_def exec_def)

theorem preflight_failure_is_error_witness:
  "\<not> preflight_ok ((guest_world [(''run'', PyFunction 0)] (\<lambda>f. Some PyNone))
        \<lparr>dir_isReadable := (\<lambda>p. False)\<rparr>) job0
   \<and> outcome (exec ((guest_world [(''run'', PyFunction 0)] (\<lambda>f. Some PyNone))
          \<lparr>dir_isReadable := (\<lambda>p. False)\<rparr>) job0)
       = Inr (Error ''Bad working directory path''
                ''Working directory /modules/unpackfs for python job unpackfs is not readable.'')
   \<and> events (exec ((guest_world [(''run'', PyFunction 0)] (\<lambda>f. Some PyNone))
          \<lparr>dir_isReadable := (\<lambda>p. False)\<rparr>) job0) = []
   \<and> \<not> preflight_ok ((guest_world [(''run'', PyFunction 0)] (\<lambda>f. Some PyNone))
        \<lparr>fi_isFile := (\<lambda>p. False)\<rparr>) job0
   \<and> outcome (exec ((guest_world [(''run'', PyFunction 0)] (\<lambda>f. Some PyNone))
          \<lparr>fi_isFile := (\<lambda>p. False)\<rparr>) job0)
       = Inr (Error ''Bad main script file''
                ''Main script file /modules/unpackfs/main.py for python job unpackfs is not readable.'')
   \<and> events (exec ((guest_world [(''run'', PyFunction 0)] (\<lambda>f. Some PyNone))
          \<lparr>fi_isFile := (\<lambda>p. False)\<rparr>) job0) = []"
proof -
  let ?w = "guest_world [(''run'', PyFunction 0)] (\<lambda>f. Some PyNone)"
  let ?a = "?w\<lparr>dir_isReadable := (\<lambda>p. False)\<rparr>"
  let ?b = "?w\<lparr>fi_isFile := (\<lambda>p. False)\<rparr>"
  have a1: "\<not> preflight_ok ?a job0" and b1: "\<not> preflight_ok ?b job0"
    by (simp_all add: stage_defs example_defs)
  have a2: "outcome (exec ?a job0)
       = Inr (Error ''Bad working directory path''
                ''Working directory /modules/unpackfs for python job unpackfs is not readable.'')"
    by (simp add: stage_defs example_defs eval_defs)
  have b2: "outcome (exec ?b job0)
       = Inr (Error ''Bad main script file''
                ''Main script file /modules/unpackfs/main.py for python job unpackfs is not readable.'')"
    by (simp add: stage_defs example_defs eval_defs)
  from a1 b1 a2 b2 preflight_failure_is_error [OF a1] preflight_failure_is_error [OF b1]
  show ?thesis by simp
qed

text \<open>
  Claim C9. Once the checks have passed and the host API is installed, when the
  configured pre-script raises, or the script file raises while it is loaded, \<^verbatim>\<open>exec\<close>
  returns an internal error with the code \<^verbatim>\<open>PythonUncaughtException\<close>, and the entry
  point is neither looked up nor called.
\<close>

theorem setup_raise_is_internal_error:
  assumes "preflight_ok w d"
    and "import_libcalamares w = Installed"
    and "result (run_preScript w) = None \<or> result (load_script w d) = None"
  shows "(\<exists>summary details.
            outcome (exec w d) = Inr (InternalError summary details PythonUncaughtException))
         \<and> LookupRun \<notin> set (events (exec w d)) \<and> RunInvoked \<notin> set (events (exec w d))"
  using assms by (auto simp: preflight_ok_def exec_def exec_guarded_def Let_def)

theorem setup_raise_is_internal_error_witness:
  "preflight_ok ((guest_world [(''run'', PyFunction 0)] (\<lambda>f. Some PyNone))
        \<lparr>s_preScript := Some ''raise SystemError''\<rparr>) job0
   \<and> result (run_preScript ((guest_world [(''run'', PyFunction 0)] (\<lambda>f. Some PyNone))
        \<lparr>s_preScript := Some ''raise SystemError''\<rparr>)) = None
   \<and> outcome (exec ((guest_world [(''run'', PyFunction 0)] (\<lambda>f. Some PyNone))
          \<lparr>s_preScript := Some ''raise SystemError''\<rparr>) job0)
       = Inr (InternalError ''Bad internal script''
                ''Internal script for python job unpackfs raised an exception.''
                PythonUncaughtException)
   \<and> RunInvoked \<notin> set (events (exec ((guest_world [(''run'', PyFunction 0)] (\<lambda>f. Some PyNone))
          \<lparr>s_preScript := Some ''raise SystemError''\<rparr>) job0))
   \<and> result (run_preScript ((guest_world [(''run'', PyFunction 0)] (\<lambda>f. Some PyNone))
        \<lparr>py_eval_file := (\<lambda>p g. \<lparr>emitted = [], result = None, globals = g\<rparr>)\<rparr>)) = Some ()
   \<and> result (load_script ((guest_world [(''run'', PyFunction 0)] (\<lambda>f. Some PyNone))
        \<lparr>py_eval_file := (\<lambda>p g. \<lparr>emitted = [], result = None, globals = g\<rparr>)\<rparr>) job0) = None
   \<and> outcome (exec ((guest_world [(''run'', PyFunction 0)] (\<lambda>f. Some PyNone))
          \<lparr>py_eval_file := (\<lambda>p g. \<lparr>emitted = [], result = None, globals = g\<rparr>)\<rparr>) job0)
       = Inr (InternalError ''Bad main script file''
                ''Main script file /modules/unpackfs/main.py for python job unpackfs could not be loaded because it raised an  exception.''
                PythonUncaughtException)
   \<and> RunInvoked \<notin> set (events (exec ((guest_world [(''run'', PyFunction 0)] (\<lambda>f. Some PyNone))
          \<lparr>py_eval_file := (\<lambda>p g. \<lparr>emitted = [], result = None, globals = g\<rparr>)\<rparr>) job0))"
proof -
  let ?w = "guest_world [(''run'', PyFunction 0)] (\<lambda>f. Some PyNone)"
  let ?a = "?w\<lparr>s_preScript := Some ''raise SystemError''\<rparr>"
  let ?b = "?w\<lparr>py_eval_file := (\<lambda>p g. \<lparr>emitted = [], result = None, globals = g\<rparr>)\<rparr>"
  have a1: "preflight_ok ?a job0" and b1: "preflight_ok ?b job0"
    by (simp_all add: stage_defs example_defs)
  have a2: "import_libcalamares ?a = Installed" and b2: "import_libcalamares ?b = Installed"
    by (simp_all add: example_defs)
  have a3: "result (run_preScript ?a) = None"
    by (simp add: stage_defs example_defs)
  have b3: "result (run_preScript ?b) = Some ()" and b4: "result (load_script ?b job0) = None"
    by (simp_all add: stage_defs example_defs)
  have a5: "outcome (exec ?a job0)
       = Inr (InternalError ''Bad internal script''
                ''Internal script for python job unpackfs raised an exception.''
                PythonUncaughtException)"
    by (simp add: stage_defs example_defs eval_defs)
  have b5: "outcome (exec ?b job0)
       = Inr (InternalError ''Bad main script file''
                ''Main script file /modules/unpackfs/main.py for python job unpackfs could not be loaded because it raised an  exception.''
                PythonUncaughtException)"
    by (simp add: stage_defs example_defs eval_defs)
  from a1 a3 a5 b3 b4 b5
    setup_raise_is_internal_error [OF a1 a2 disjI1 [OF a3]]
    setup_raise_is_internal_error [OF b1 b2 disjI2 [OF b4]]
  show ?thesis by simp
qed

text \<open>
  Claim C10. The claim: on every execution whose script has loaded, \<^verbatim>\<open>exec\<close> emits
  progress 0 once, after it has derived the description and before it looks \<^verbatim>\<open>run\<close> up.
  When the derivation returns this is so (\<open>progress_emitted_before_lookup\<close>). The code
  does otherwise when \<^verbatim>\<open>pretty_name\<close> raises: the exception leaves \<^verbatim>\<open>exec\<close> from the line
  before the emission, so, for every script that has loaded and binds \<^verbatim>\<open>pretty_name\<close> to
  an object whose call raises, the events of \<^verbatim>\<open>exec\<close> end with the derivation: no
  description is stored, \<^verbatim>\<open>exec\<close> emits no progress and \<^verbatim>\<open>run\<close> is not looked up.
\<close>

theorem no_progress_when_derivation_throws:
  assumes "script_loaded w d"
    and "globals (load_script w d) key_name = Some func"
    and "result (call_object w func (globals (load_script w d))) = None"
  shows "events (exec w d) = load_events w d @ [InterpreterReleased]"
  using assms by (simp add: exec_when_derivation_throws derived_throws)

theorem no_progress_when_derivation_throws_witness:
  "script_loaded (guest_world [(''pretty_name'', PyFunction 1)] (\<lambda>f. None)) job0
   \<and> events (exec (guest_world [(''pretty_name'', PyFunction 1)] (\<lambda>f. None)) job0)
       = [InterpreterCreated, JobProxyConstructed, GlobalStorageProxyConstructed, InterpreterReleased]
   \<and> Progress 0 \<notin> set (events (exec (guest_world [(''pretty_name'', PyFunction 1)] (\<lambda>f. None)) job0))"
proof -
  let ?w = "guest_world [(''pretty_name'', PyFunction 1)] (\<lambda>f. None)"
  have h1: "script_loaded ?w job0"
    by (simp add: stage_defs example_defs)
  have h2: "globals (load_script ?w job0) key_name = Some (PyFunction 1)"
    by (simp add: stage_defs example_defs)
  have h3: "result (call_object ?w (PyFunction 1) (globals (load_script ?w job0))) = None"
    by (simp add: stage_defs example_defs)
  have "load_events ?w job0 = [InterpreterCreated, JobProxyConstructed, GlobalStorageProxyConstructed]"
    by (simp add: load_events_def stage_defs example_defs eval_defs)
  with h1 no_progress_when_derivation_throws [OF h1 h2 h3] show ?thesis by simp
qed

text \<open>
  When the derivation returns, the events after it start with the description stored,
  progress 0 and the lookup of \<^verbatim>\<open>run\<close>, in this order and each once; no description is
  stored before, and \<^verbatim>\<open>run\<close> is not looked up again.
\<close>

lemma progress_emitted_before_lookup:
  assumes "script_loaded w d" and "result (derived w d) = Inr name"
  shows "\<exists>rest. events (exec w d) = load_events w d @ [DescriptionSet name, Progress 0, LookupRun] @ rest
           \<and> LookupRun \<notin> set rest \<and> DescriptionSet name \<notin> set rest
           \<and> DescriptionSet name \<notin> set (load_events w d)"
  using assms
  by (auto simp: exec_when_derived exec_run_def load_events_def Let_def split: option.splits)

end
